theory Spec2Isabelle
  imports Complex_Main "HOL-Library.Sublist" "HOL-Library.Multiset" "HOL-Library.Word"
begin

section \<open>Shared data: floating-point values, errors, probes\<close>

text \<open>
  Go's \<open>float64\<close>. A finite value is the real number it denotes (the two signed zeros are
  one value, which \<open>==\<close>, \<open><\<close> and \<open>>=\<close> cannot tell apart anyway); the comparisons
  follow IEEE 754: every comparison with NaN is false. The result of an arithmetic operation
  on finite values is the exact result rounded by \<open>rnd\<close>, the rounding of the machine,
  which the operations take as an argument.
\<close>

datatype float64 = NaN | NegInf | PosInf | Finite real

fun f64_eq :: "float64 \<Rightarrow> float64 \<Rightarrow> bool" where
  "f64_eq NaN _ = False"
| "f64_eq _ NaN = False"
| "f64_eq (Finite a) (Finite b) = (a = b)"
| "f64_eq NegInf NegInf = True"
| "f64_eq PosInf PosInf = True"
| "f64_eq _ _ = False"

fun f64_lt :: "float64 \<Rightarrow> float64 \<Rightarrow> bool" where
  "f64_lt NaN _ = False"
| "f64_lt _ NaN = False"
| "f64_lt (Finite a) (Finite b) = (a < b)"
| "f64_lt NegInf NegInf = False"
| "f64_lt NegInf _ = True"
| "f64_lt _ NegInf = False"
| "f64_lt PosInf _ = False"
| "f64_lt _ PosInf = True"

definition f64_gt :: "float64 \<Rightarrow> float64 \<Rightarrow> bool" where
  "f64_gt a b = f64_lt b a"

definition f64_ge :: "float64 \<Rightarrow> float64 \<Rightarrow> bool" where
  "f64_ge a b = (f64_lt b a \<or> f64_eq a b)"

fun f64_sub :: "(real \<Rightarrow> float64) \<Rightarrow> float64 \<Rightarrow> float64 \<Rightarrow> float64" where
  "f64_sub rnd NaN _ = NaN"
| "f64_sub rnd _ NaN = NaN"
| "f64_sub rnd (Finite a) (Finite b) = rnd (a - b)"
| "f64_sub rnd PosInf PosInf = NaN"
| "f64_sub rnd NegInf NegInf = NaN"
| "f64_sub rnd PosInf _ = PosInf"
| "f64_sub rnd NegInf _ = NegInf"
| "f64_sub rnd _ PosInf = NegInf"
| "f64_sub rnd _ NegInf = PosInf"

text \<open>
  The errors of the two files. Go builds them with \<open>fmt.Errorf\<close> or receives them from the
  database driver; here each origin is a constructor.
\<close>

datatype error =
    TimeoutParseError string
      \<comment> \<open>"failed to parse timeout from Prometheus header: ..."\<close>
  | InvalidTimeout float64
      \<comment> \<open>"timeout value from Prometheus header is invalid: ..."\<close>
  | TimeoutTooTight float64 float64
      \<comment> \<open>"timeout offset (...) should be lower than prometheus scrape timeout (...)"\<close>
  | DriverError string
      \<comment> \<open>an error returned by the database driver for the named query\<close>
  | ColumnsError
      \<comment> \<open>an error returned by \<open>Rows.Columns\<close>\<close>
  | ScanError nat nat
      \<comment> \<open>\<open>Rows.Scan\<close>: expected so many destination arguments, not so many\<close>
  | NilRows
      \<comment> \<open>run-time panic: method call on a nil \<open>*sql.Rows\<close>\<close>
  | DSNError string
      \<comment> \<open>an error returned by \<open>FormDSN\<close>\<close>

text \<open>
  What the two files use and do not define: functions of the Go standard library whose
  result is not spelled out here, and declarations of the \<open>collector\<close> package that live in
  other files (\<open>namespace\<close>, \<open>parseStatus\<close>).
\<close>

record env =
  ParseFloat :: "string \<Rightarrow> float64 option"
    \<comment> \<open>\<open>strconv.ParseFloat(v, 64)\<close>; \<open>None\<close> when it returns an error\<close>
  round64 :: "real \<Rightarrow> float64"
    \<comment> \<open>rounding of an exact result to \<open>float64\<close>\<close>
  seconds_to_Duration :: "float64 \<Rightarrow> int"
    \<comment> \<open>\<open>time.Duration(s * float64(time.Second))\<close>, in nanoseconds\<close>
  ToLower :: "string \<Rightarrow> string"
    \<comment> \<open>\<open>strings.ToLower\<close>\<close>
  parseStatus :: "string \<Rightarrow> float64 option"
    \<comment> \<open>\<open>collector.parseStatus\<close>; \<open>None\<close> when its second result is false\<close>
  namespace :: string
    \<comment> \<open>the constant \<open>collector.namespace\<close>\<close>

text \<open>
  A probe (\<open>collector.Scraper\<close>): the interface's three getters. Its \<open>Scrape\<close> method is
  not data and plays no part in the selection.
\<close>

record Scraper =
  Name :: string
  Help :: string
  Version :: float64

section \<open>Probe selection: \<open>filterScrapers\<close>\<close>

text \<open>
  \<open>filters\<close> is a Go \<open>map[string]bool\<close>; reading a key that was never stored yields
  \<open>false\<close>.
\<close>

type_synonym filters = "string \<rightharpoonup> bool"

definition filters_get :: "filters \<Rightarrow> string \<Rightarrow> bool" where
  "filters_get filters k = (case filters k of None \<Rightarrow> False | Some b \<Rightarrow> b)"

text \<open>\<open>for _, param := range collectParams { filters[param] = true }\<close>\<close>

fun fill_filters :: "filters \<Rightarrow> string list \<Rightarrow> filters" where
  "fill_filters filters [] = filters"
| "fill_filters filters (param # rest) = fill_filters (filters(param \<mapsto> True)) rest"

text \<open>
  \<open>for _, scraper := range scrapers { if filters[scraper.Name()] { filteredScrapers =
  append(filteredScrapers, scraper) } }\<close>
\<close>

fun append_matching :: "filters \<Rightarrow> Scraper list \<Rightarrow> Scraper list \<Rightarrow> Scraper list" where
  "append_matching filters filteredScrapers [] = filteredScrapers"
| "append_matching filters filteredScrapers (scraper # rest) =
     (if filters_get filters (Name scraper)
      then append_matching filters (filteredScrapers @ [scraper]) rest
      else append_matching filters filteredScrapers rest)"

definition filterScrapers :: "Scraper list \<Rightarrow> string list \<Rightarrow> Scraper list" where
  "filterScrapers scrapers collectParams =
     (let filteredScrapers =
            (if length collectParams > 0
             then append_matching (fill_filters Map.empty collectParams) [] scrapers
             else [])
      in if length filteredScrapers = 0 then scrapers else filteredScrapers)"

section \<open>Deadline derivation: \<open>getScrapeTimeoutSeconds\<close>\<close>

text \<open>
  Of the request, the handler reads the \<open>target\<close> and \<open>collect[]\<close> query parameters and
  the header \<open>X-Prometheus-Scrape-Timeout-Seconds\<close>. \<open>Header.Get\<close> returns the empty
  string for a header that is absent.
\<close>

record request =
  query_target :: "string option"
  query_collect :: "string list"
  header_timeout :: "string option"

definition Header_Get :: "request \<Rightarrow> string" where
  "Header_Get r = (case header_timeout r of None \<Rightarrow> [] | Some v \<Rightarrow> v)"

text \<open>
  The function returns a pair \<open>(float64, error)\<close>, and its caller reads the first component
  whatever the second is: the model returns the pair.
\<close>

definition getScrapeTimeoutSeconds :: "env \<Rightarrow> request \<Rightarrow> float64 \<Rightarrow> float64 \<times> error option" where
  "getScrapeTimeoutSeconds E r offset =
     (let v = Header_Get r in
      case (if v \<noteq> [] then ParseFloat E v else Some (Finite 0)) of
        None \<Rightarrow> (Finite 0, Some (TimeoutParseError v))
      | Some timeoutSeconds \<Rightarrow>
          if f64_eq timeoutSeconds (Finite 0) then (Finite 0, None)
          else if f64_lt timeoutSeconds (Finite 0)
            then (Finite 0, Some (InvalidTimeout timeoutSeconds))
          else if f64_ge offset timeoutSeconds
            then (Finite 0, Some (TimeoutTooTight offset timeoutSeconds))
          else (f64_sub (round64 E) timeoutSeconds offset, None))"

section \<open>The request handler: \<open>newHandler\<close>\<close>

text \<open>
  The configuration handler \<open>c\<close> is a package of its own: of it the handler uses whether the
  section \<open>client\<close> exists and the section's \<open>FormDSN\<close>, which returns a pair.
\<close>

record config =
  client_section_ok :: bool
  FormDSN :: "string \<Rightarrow> string \<times> error option"

datatype log_entry = LogError string "error option"

text \<open>
  A context is the request's own, or one with a timeout (in nanoseconds) on top of its
  parent.
\<close>

datatype go_context = RequestContext | WithTimeout go_context int

text \<open>
  What a request leads to: the lines logged, the arguments of \<open>collector.New\<close>, and the
  response, which is written by the handler of the Prometheus client library
  (\<open>serve\<close>) from these arguments; the handler of this file writes nothing itself.
\<close>

record 'r handled =
  logged :: "log_entry list"
  collector_ctx :: go_context
  collector_dsn :: string
  collector_scrapers :: "Scraper list"
  response :: 'r

definition newHandler ::
  "env \<Rightarrow> config \<Rightarrow> float64 \<Rightarrow> (go_context \<Rightarrow> string \<Rightarrow> Scraper list \<Rightarrow> 'r) \<Rightarrow>
   Scraper list \<Rightarrow> request \<Rightarrow> 'r handled" where
  "newHandler E c timeoutOffset serve scrapers r =
     (let target = (case query_target r of Some t \<Rightarrow> t | None \<Rightarrow> []);
          log1 = (if \<not> client_section_ok c
                  then [LogError ''Failed to parse section [client] from config file'' None]
                  else []);
          (dsn, err) = FormDSN c target;
          log2 = (case err of
                    Some e \<Rightarrow> log1 @ [LogError ''Failed to form dsn from section [client]'' (Some e)]
                  | None \<Rightarrow> log1);
          collect = query_collect r;
          ctx = RequestContext;
          (timeoutSeconds, err) = getScrapeTimeoutSeconds E r timeoutOffset;
          log3 = (case err of
                    Some e \<Rightarrow> log2 @ [LogError ''Error getting timeout from Prometheus header'' (Some e)]
                  | None \<Rightarrow> log2);
          ctx = (if f64_gt timeoutSeconds (Finite 0)
                 then WithTimeout ctx (seconds_to_Duration E timeoutSeconds)
                 else ctx);
          filteredScrapers = filterScrapers scrapers collect
      in \<lparr>logged = log3, collector_ctx = ctx, collector_dsn = dsn,
          collector_scrapers = filteredScrapers,
          response = serve ctx dsn filteredScrapers\<rparr>)"

section \<open>The replication status probe: \<open>ScrapeSlaveStatus\<close>\<close>

definition slaveStatus :: string where
  "slaveStatus = ''slave_status''"

definition slaveStatusQueries :: "string list" where
  "slaveStatusQueries = [''SHOW ALL SLAVES STATUS'', ''SHOW SLAVE STATUS'', ''SHOW REPLICA STATUS'']"

definition slaveStatusQuerySuffixes :: "string list" where
  "slaveStatusQuerySuffixes = ['' NONBLOCKING'', '' NOLOCK'', []]"

text \<open>
  \<open>columnIndex\<close>: the first index at which the name stands, \<open>-1\<close> when there is none.
\<close>

fun columnIndex_from :: "nat \<Rightarrow> string list \<Rightarrow> string \<Rightarrow> int" where
  "columnIndex_from idx [] colName = - 1"
| "columnIndex_from idx (c # rest) colName =
     (if c = colName then int idx else columnIndex_from (Suc idx) rest colName)"

definition columnIndex :: "string list \<Rightarrow> string \<Rightarrow> int" where
  "columnIndex slaveCols colName = columnIndex_from 0 slaveCols colName"

text \<open>
  \<open>scanArgs\<close> is made with the length of \<open>slaveCols\<close> and filled by \<open>Scan\<close>, so the index
  that \<open>columnIndex\<close> returns is within it.
\<close>

definition columnValue :: "string list \<Rightarrow> string list \<Rightarrow> string \<Rightarrow> string" where
  "columnValue scanArgs slaveCols colName =
     (let columnIndex = columnIndex slaveCols colName in
      if columnIndex = - 1 then [] else scanArgs ! nat columnIndex)"

subsection \<open>Metrics\<close>

datatype value_type = CounterValue | GaugeValue | UntypedValue

text \<open>
  A metric as \<open>MustNewConstMetric (NewDesc fqName help variableLabels nil) valueType value
  labelValues...\<close> is given it. The validation that the client library applies to names and
  label values belongs to the library and is outside this development.
\<close>

record desc =
  fqName :: string
  desc_help :: string
  variableLabels :: "string list"

record metric =
  metric_desc :: desc
  valueType :: value_type
  metric_value :: float64
  labelValues :: "string list"

text \<open>
  \<open>prometheus.BuildFQName\<close>, as its documentation has it: the three components joined by
  \<open>_\<close>, empty components left out, and the empty string when \<open>name\<close> is empty.
\<close>

definition BuildFQName :: "string \<Rightarrow> string \<Rightarrow> string \<Rightarrow> string" where
  "BuildFQName ns subsystem name =
     (if name = [] then []
      else (if ns \<noteq> [] then ns @ ''_'' else [])
         @ (if subsystem \<noteq> [] then subsystem @ ''_'' else [])
         @ name)"

subsection \<open>Standard library: \<open>strings.Split\<close> and \<open>strconv.ParseUint\<close>\<close>

text \<open>
  \<open>strings.Split s sep\<close> for a separator of one character: the pieces between the
  separators, \<open>[s]\<close> when \<open>s\<close> has none, so never an empty list.
\<close>

fun Split :: "string \<Rightarrow> char \<Rightarrow> string list" where
  "Split [] sep = [[]]"
| "Split (c # cs) sep =
     (if c = sep then [] # Split cs sep
      else (case Split cs sep of
              [] \<Rightarrow> [[c]]
            | p # ps \<Rightarrow> (c # p) # ps))"

definition is_digit :: "char \<Rightarrow> bool" where
  "is_digit c = (48 \<le> (of_char c :: nat) \<and> (of_char c :: nat) \<le> 57)"

definition decimal_value :: "string \<Rightarrow> nat" where
  "decimal_value s = foldl (\<lambda>n c. 10 * n + (of_char c - 48)) 0 s"

text \<open>
  \<open>strconv.ParseUint s 10 64\<close>: a non-empty string of decimal digits (no sign, no
  underscore) whose value fits 64 bits; anything else is an error.
\<close>

definition ParseUint :: "string \<Rightarrow> 64 word option" where
  "ParseUint s =
     (if s = [] then None
      else if \<not> list_all is_digit s then None
      else if decimal_value s \<ge> 2 ^ 64 then None
      else Some (word_of_nat (decimal_value s)))"

text \<open>The conversion \<open>float64(sequence_num)\<close> of an unsigned 64-bit integer.\<close>

definition float64_of_uint64 :: "env \<Rightarrow> 64 word \<Rightarrow> float64" where
  "float64_of_uint64 E n = round64 E (real (unat n))"

subsection \<open>\<open>parseMariaDBGtid\<close>\<close>

text \<open>
  The channel \<open>ch\<close> is the list of the metrics sent so far; sending appends. The loop over
  the entries: \<open>continue\<close> is the recursive call with the channel unchanged.
\<close>

fun parseMariaDBGtid_loop ::
  "env \<Rightarrow> string \<Rightarrow> string \<Rightarrow> string \<Rightarrow> string \<Rightarrow> string \<Rightarrow> string list \<Rightarrow>
   metric list \<Rightarrow> metric list" where
  "parseMariaDBGtid_loop E name masterHost masterUUID channelName connectionName [] ch = ch"
| "parseMariaDBGtid_loop E name masterHost masterUUID channelName connectionName (gtid # rest) ch =
     (let parts = Split gtid CHR ''-'' in
      if length parts \<noteq> 3
      then parseMariaDBGtid_loop E name masterHost masterUUID channelName connectionName rest ch
      else
        let domainID = parts ! 0;
            serverID = parts ! 1
        in case ParseUint (parts ! 2) of
             None \<Rightarrow>
               parseMariaDBGtid_loop E name masterHost masterUUID channelName connectionName rest ch
           | Some sequence_num \<Rightarrow>
               parseMariaDBGtid_loop E name masterHost masterUUID channelName connectionName rest
                 (ch @ [\<lparr>metric_desc =
                           \<lparr>fqName = BuildFQName (namespace E) slaveStatus (ToLower E name),
                            desc_help = name @ '' metric from SHOW SLAVE STATUS.'',
                            variableLabels = [''master_host'', ''master_uuid'', ''channel_name'',
                              ''connection_name'', ''domain_id'', ''server_id'']\<rparr>,
                         valueType = GaugeValue,
                         metric_value = float64_of_uint64 E sequence_num,
                         labelValues = [masterHost, masterUUID, channelName, connectionName,
                           domainID, serverID]\<rparr>]))"

definition parseMariaDBGtid ::
  "env \<Rightarrow> metric list \<Rightarrow> string \<Rightarrow> string \<Rightarrow> string \<Rightarrow> string \<Rightarrow> string \<Rightarrow> string \<Rightarrow>
   metric list" where
  "parseMariaDBGtid E ch name val masterHost masterUUID channelName connectionName =
     (if val = [] then ch
      else parseMariaDBGtid_loop E name masterHost masterUUID channelName connectionName
             (Split val CHR '','') ch)"

subsection \<open>One row of the result\<close>

text \<open>The four labels that every metric of a row carries, resolved by column name.\<close>

definition row_labels :: "string list \<Rightarrow> string list \<Rightarrow> string \<times> string \<times> string \<times> string" where
  "row_labels scanArgs slaveCols =
     (let masterUUID = columnValue scanArgs slaveCols ''Master_UUID'';
          masterUUID = (if masterUUID = [] then columnValue scanArgs slaveCols ''Source_UUID''
                        else masterUUID);
          masterHost = columnValue scanArgs slaveCols ''Master_Host'';
          masterHost = (if masterHost = [] then columnValue scanArgs slaveCols ''Source_Host''
                        else masterHost);
          channelName = columnValue scanArgs slaveCols ''Channel_Name'';
          connectionName = columnValue scanArgs slaveCols ''Connection_name''
      in (masterHost, masterUUID, channelName, connectionName))"

text \<open>
  \<open>for i, col := range slaveCols\<close>: \<open>i\<close> is the index of \<open>col\<close>, the head of the columns
  still to visit.
\<close>

fun generic_loop ::
  "env \<Rightarrow> string \<Rightarrow> string \<Rightarrow> string \<Rightarrow> string \<Rightarrow> string list \<Rightarrow> nat \<Rightarrow> string list \<Rightarrow>
   metric list \<Rightarrow> metric list" where
  "generic_loop E masterHost masterUUID channelName connectionName scanArgs i [] ch = ch"
| "generic_loop E masterHost masterUUID channelName connectionName scanArgs i (col # rest) ch =
     (case parseStatus E (scanArgs ! i) of
        Some v \<Rightarrow>
          generic_loop E masterHost masterUUID channelName connectionName scanArgs (Suc i) rest
            (ch @ [\<lparr>metric_desc =
                      \<lparr>fqName = BuildFQName (namespace E) slaveStatus (ToLower E col),
                       desc_help = ''Generic metric from SHOW SLAVE STATUS.'',
                       variableLabels = [''master_host'', ''master_uuid'', ''channel_name'',
                         ''connection_name'']\<rparr>,
                    valueType = UntypedValue,
                    metric_value = v,
                    labelValues = [masterHost, masterUUID, channelName, connectionName]\<rparr>])
      | None \<Rightarrow>
          generic_loop E masterHost masterUUID channelName connectionName scanArgs (Suc i) rest ch)"

text \<open>The body of the loop over the rows, after a successful \<open>Scan\<close>.\<close>

definition scrape_row :: "env \<Rightarrow> string list \<Rightarrow> string list \<Rightarrow> metric list \<Rightarrow> metric list" where
  "scrape_row E slaveCols scanArgs ch =
     (case row_labels scanArgs slaveCols of
        (masterHost, masterUUID, channelName, connectionName) \<Rightarrow>
          let ch = generic_loop E masterHost masterUUID channelName connectionName
                     scanArgs 0 slaveCols ch;
              ch = parseMariaDBGtid E ch ''Gtid_IO_Pos''
                     (columnValue scanArgs slaveCols ''Gtid_IO_Pos'')
                     masterHost masterUUID channelName connectionName;
              ch = parseMariaDBGtid E ch ''Gtid_Slave_Pos''
                     (columnValue scanArgs slaveCols ''Gtid_Slave_Pos'')
                     masterHost masterUUID channelName connectionName
          in ch)"

subsection \<open>The result set and the whole probe\<close>

text \<open>
  A result set: what \<open>Columns\<close> returns and the rows that \<open>Next\<close> yields, each the list of
  its raw values. \<open>Scan\<close> into \<open>n\<close> destinations fails on a row of another width.
\<close>

record sql_rows =
  rows_Columns :: "error + string list"
  rows_data :: "string list list"

definition Scan :: "nat \<Rightarrow> string list \<Rightarrow> error + string list" where
  "Scan n row = (if length row = n then Inr row else Inl (ScanError (length row) n))"

fun scrape_rows ::
  "env \<Rightarrow> string list \<Rightarrow> string list list \<Rightarrow> metric list \<Rightarrow> metric list \<times> error option" where
  "scrape_rows E slaveCols [] ch = (ch, None)"
| "scrape_rows E slaveCols (row # rest) ch =
     (case Scan (length slaveCols) row of
        Inl err \<Rightarrow> (ch, Some err)
      | Inr scanArgs \<Rightarrow> scrape_rows E slaveCols rest (scrape_row E slaveCols scanArgs ch))"

text \<open>
  The connection is a state \<open>'db\<close> and \<open>QueryContext\<close> a function on it that returns the
  rows or an error, and the next state. The two variables \<open>slaveStatusRows\<close> and \<open>err\<close>
  are assigned together by every query.
\<close>

type_synonym 'db QueryContext = "'db \<Rightarrow> string \<Rightarrow> (error + sql_rows) \<times> 'db"

definition assigned :: "error + sql_rows \<Rightarrow> sql_rows option \<times> error option" where
  "assigned res = (case res of Inl err \<Rightarrow> (None, Some err) | Inr rows \<Rightarrow> (Some rows, None))"

text \<open>
  The inner loop, over the suffixes: its \<open>break\<close> leaves this loop, and only this one.
\<close>

fun try_suffixes ::
  "'db QueryContext \<Rightarrow> string \<Rightarrow> string list \<Rightarrow> sql_rows option \<times> error option \<Rightarrow> 'db \<Rightarrow>
   (sql_rows option \<times> error option) \<times> 'db" where
  "try_suffixes QueryContext query [] vars db = (vars, db)"
| "try_suffixes QueryContext query (sfx # rest) vars db =
     (case QueryContext db (query @ sfx) of
        (res, db') \<Rightarrow>
          if snd (assigned res) = None then (assigned res, db')
          else try_suffixes QueryContext query rest (assigned res) db')"

text \<open>
  The outer loop, over the queries: after the suffixes of a query that failed, whatever
  came of them, it goes on with the next query; it breaks only when the query itself
  succeeds.
\<close>

fun try_queries ::
  "'db QueryContext \<Rightarrow> string list \<Rightarrow> sql_rows option \<times> error option \<Rightarrow> 'db \<Rightarrow>
   (sql_rows option \<times> error option) \<times> 'db" where
  "try_queries QueryContext [] vars db = (vars, db)"
| "try_queries QueryContext (query # rest) vars db =
     (case QueryContext db query of
        (res, db') \<Rightarrow>
          if snd (assigned res) \<noteq> None
          then (case try_suffixes QueryContext query slaveStatusQuerySuffixes (assigned res) db' of
                  (vars', db'') \<Rightarrow> try_queries QueryContext rest vars' db'')
          else (assigned res, db'))"

text \<open>
  \<open>Scrape\<close> returns the metrics sent on the channel and the error, if any, with the state
  of the connection.
\<close>

definition Scrape :: "env \<Rightarrow> 'db QueryContext \<Rightarrow> 'db \<Rightarrow> (metric list \<times> error option) \<times> 'db" where
  "Scrape E QueryContext db =
     (case try_queries QueryContext slaveStatusQueries (None, None) db of
        ((slaveStatusRows, err), db') \<Rightarrow>
          (case err of
             Some e \<Rightarrow> (([], Some e), db')
           | None \<Rightarrow>
               (case slaveStatusRows of
                  None \<Rightarrow> (([], Some NilRows), db')
                | Some rows \<Rightarrow>
                    (case rows_Columns rows of
                       Inl e \<Rightarrow> (([], Some e), db')
                     | Inr slaveCols \<Rightarrow> (scrape_rows E slaveCols (rows_data rows) [], db')))))"

section \<open>Concrete inputs\<close>

text \<open>
  An environment for evaluating the definitions on concrete inputs. It parses decimal
  integers only and rounds a number that \<open>float64\<close> represents exactly to itself; on the
  inputs it is evaluated at below, the Go functions return the same.
\<close>

definition decimal_float :: "string \<Rightarrow> float64 option" where
  "decimal_float s =
     (case s of
        [] \<Rightarrow> None
      | c # ds \<Rightarrow>
          if c = CHR ''-'' \<and> ds \<noteq> [] \<and> list_all is_digit ds
            then Some (Finite (- real (decimal_value ds)))
          else if list_all is_digit s then Some (Finite (real (decimal_value s)))
          else None)"

definition ascii_lower :: "char \<Rightarrow> char" where
  "ascii_lower c =
     (if 65 \<le> (of_char c :: nat) \<and> (of_char c :: nat) \<le> 90
      then char_of (of_char c + (32 :: nat)) else c)"

definition sample_env :: env where
  "sample_env =
     \<lparr>ParseFloat = decimal_float,
      round64 = Finite,
      seconds_to_Duration = (\<lambda>s. case s of Finite x \<Rightarrow> \<lfloor>x * 1000000000\<rfloor> | _ \<Rightarrow> 0),
      ToLower = map ascii_lower,
      parseStatus = decimal_float,
      namespace = ''mysql''\<rparr>"

definition sample_config :: config where
  "sample_config = \<lparr>client_section_ok = True, FormDSN = (\<lambda>target. (''dsn:'' @ target, None))\<rparr>"

definition sample_scrapers :: "Scraper list" where
  "sample_scrapers =
     [\<lparr>Name = ''global_status'', Help = ''Collect from SHOW GLOBAL STATUS'', Version = Finite (51 / 10)\<rparr>,
      \<lparr>Name = ''slave_status'', Help = ''Collect from SHOW SLAVE STATUS'', Version = Finite (51 / 10)\<rparr>,
      \<lparr>Name = ''info_schema.tables'', Help = ''Collect metrics from information_schema.tables'',
        Version = Finite (51 / 10)\<rparr>]"

definition sample_request :: "string option \<Rightarrow> request" where
  "sample_request hdr = \<lparr>query_target = None, query_collect = [''slave_status''], header_timeout = hdr\<rparr>"

text \<open>
  A fake connection: its state is the list of the queries attempted so far, and it accepts
  exactly the queries that \<open>accepts\<close> holds of, with an empty result set.
\<close>

definition fake_QueryContext :: "(string \<Rightarrow> bool) \<Rightarrow> string list QueryContext" where
  "fake_QueryContext accepts attempted query =
     (if accepts query then Inr \<lparr>rows_Columns = Inr [], rows_data = []\<rparr>
      else Inl (DriverError query),
      attempted @ [query])"

section \<open>Notions of the specification\<close>

text \<open>
  A timeout header is invalid when it is present and does not parse, or parses to a
  negative number, or to a positive number that the offset reaches.
\<close>

definition invalid_timeout_header :: "env \<Rightarrow> float64 \<Rightarrow> request \<Rightarrow> bool" where
  "invalid_timeout_header E off r =
     (Header_Get r \<noteq> [] \<and>
      (case ParseFloat E (Header_Get r) of
         None \<Rightarrow> True
       | Some t \<Rightarrow> f64_lt t (Finite 0) \<or> (f64_lt (Finite 0) t \<and> f64_ge off t)))"




text \<open>
  The generic metric of a column: named from the lowercased column name, untyped, with the
  four labels of the row. A column contributes it when its raw value parses as a number, and
  nothing otherwise.
\<close>

definition generic_metric ::
  "env \<Rightarrow> string \<times> string \<times> string \<times> string \<Rightarrow> string \<Rightarrow> float64 \<Rightarrow> metric" where
  "generic_metric E labels col v =
     (case labels of
        (masterHost, masterUUID, channelName, connectionName) \<Rightarrow>
          \<lparr>metric_desc =
             \<lparr>fqName = BuildFQName (namespace E) ''slave_status'' (ToLower E col),
              desc_help = ''Generic metric from SHOW SLAVE STATUS.'',
              variableLabels = [''master_host'', ''master_uuid'', ''channel_name'',
                ''connection_name'']\<rparr>,
           valueType = UntypedValue,
           metric_value = v,
           labelValues = [masterHost, masterUUID, channelName, connectionName]\<rparr>)"

definition column_metrics ::
  "env \<Rightarrow> string \<times> string \<times> string \<times> string \<Rightarrow> string \<times> string \<Rightarrow> metric list" where
  "column_metrics E labels column =
     (case parseStatus E (snd column) of
        None \<Rightarrow> []
      | Some v \<Rightarrow> [generic_metric E labels (fst column) v])"

definition is_generic :: "metric \<Rightarrow> bool" where
  "is_generic m = (desc_help (metric_desc m) = ''Generic metric from SHOW SLAVE STATUS.'')"

text \<open>
  The value of a column of a row, by name: that of the first column of the name, if there
  is one. Of two columns, the first is preferred when it is present with a non-empty
  value; otherwise the second is taken, and the empty string when that is absent too.
\<close>

definition column_of :: "string list \<Rightarrow> string list \<Rightarrow> string \<Rightarrow> string option" where
  "column_of slaveCols scanArgs name = map_of (zip slaveCols scanArgs) name"

definition preferred_column :: "string list \<Rightarrow> string list \<Rightarrow> string \<Rightarrow> string \<Rightarrow> string" where
  "preferred_column slaveCols scanArgs first second =
     (case column_of slaveCols scanArgs first of
        Some v \<Rightarrow>
          if v \<noteq> [] then v
          else (case column_of slaveCols scanArgs second of Some w \<Rightarrow> w | None \<Rightarrow> [])
      | None \<Rightarrow> (case column_of slaveCols scanArgs second of Some w \<Rightarrow> w | None \<Rightarrow> []))"


section \<open>Properties of the probe selection\<close>

lemma fill_filters_get:
  "filters_get (fill_filters filters collectParams) k =
     (k \<in> set collectParams \<or> filters_get filters k)"
  by (induction collectParams arbitrary: filters) (auto simp: filters_get_def)

lemma fill_filters_empty_get:
  "filters_get (fill_filters Map.empty collectParams) k = (k \<in> set collectParams)"
  by (simp add: fill_filters_get) (simp add: filters_get_def)

lemma append_matching_filter:
  "append_matching filters acc scrapers =
     acc @ filter (\<lambda>s. filters_get filters (Name s)) scrapers"
  by (induction scrapers arbitrary: acc) auto

lemma filterScrapers_eq:
  "filterScrapers scrapers collectParams =
     (if filter (\<lambda>s. Name s \<in> set collectParams) scrapers = [] then scrapers
      else filter (\<lambda>s. Name s \<in> set collectParams) scrapers)"
  by (cases collectParams)
     (simp_all add: filterScrapers_def append_matching_filter fill_filters_empty_get
        del: fill_filters.simps)

text \<open>
  C3. An inclusion list that is empty, or whose identities match no probe of the registry
  list, selects the whole registry list; the selection is then empty only if the registry
  list is.
\<close>

theorem filterScrapers_unknown_falls_back:
  assumes "collectParams = [] \<or> (\<forall>p \<in> set collectParams. p \<notin> Name ` set scrapers)"
  shows "filterScrapers scrapers collectParams = scrapers
       \<and> (scrapers \<noteq> [] \<longrightarrow> filterScrapers scrapers collectParams \<noteq> [])"
proof -
  have "filter (\<lambda>s. Name s \<in> set collectParams) scrapers = []"
    using assms by (auto simp: filter_empty_conv)
  then show ?thesis by (simp add: filterScrapers_eq)
qed

theorem filterScrapers_unknown_falls_back_witness:
  "([''bogus''] = [] \<or> (\<forall>p \<in> set [''bogus'']. p \<notin> Name ` set sample_scrapers))
   \<and> filterScrapers sample_scrapers [''bogus''] = sample_scrapers
   \<and> filterScrapers sample_scrapers [''bogus''] \<noteq> []"
  using filterScrapers_unknown_falls_back [of "[''bogus'']" sample_scrapers]
  by (simp add: sample_scrapers_def)

text \<open>
  C4. Selecting with an inclusion list that names exactly the probes of the registry list (in
  any order, with or without repetitions) yields the same probes, in the same order, as
  selecting with no inclusion list.
\<close>

theorem filterScrapers_full_inclusion:
  assumes "set collectParams = Name ` set scrapers"
  shows "filterScrapers scrapers collectParams = filterScrapers scrapers []"
proof -
  have "filter (\<lambda>s. Name s \<in> set collectParams) scrapers = scrapers"
    using assms by (simp add: filter_id_conv)
  then show ?thesis by (simp add: filterScrapers_eq)
qed

theorem filterScrapers_full_inclusion_witness:
  "set [''slave_status'', ''info_schema.tables'', ''global_status''] = Name ` set sample_scrapers
   \<and> filterScrapers sample_scrapers [''slave_status'', ''info_schema.tables'', ''global_status'']
       = filterScrapers sample_scrapers []
   \<and> filterScrapers sample_scrapers [] = sample_scrapers"
proof -
  have h: "set [''slave_status'', ''info_schema.tables'', ''global_status'']
             = Name ` set sample_scrapers"
    by (auto simp: sample_scrapers_def)
  have e: "filterScrapers sample_scrapers [] = sample_scrapers"
    by (simp add: filterScrapers_def)
  show ?thesis
    using h e filterScrapers_full_inclusion [OF h] by simp
qed

text \<open>
  C9. Whatever the inclusion list, the selection is a subsequence of the registry list: the
  registry's order is kept and no probe is added. It is not empty unless the registry list
  is.
\<close>

theorem filterScrapers_subseq_nonempty:
  "subseq (filterScrapers scrapers collectParams) scrapers
   \<and> (scrapers \<noteq> [] \<longrightarrow> filterScrapers scrapers collectParams \<noteq> [])"
  by (simp add: filterScrapers_eq)

theorem filterScrapers_subseq_nonempty_witness:
  "sample_scrapers \<noteq> []
   \<and> filterScrapers sample_scrapers [''slave_status'', ''unknown''] = [sample_scrapers ! 1]
   \<and> subseq (filterScrapers sample_scrapers [''slave_status'', ''unknown'']) sample_scrapers"
  using filterScrapers_subseq_nonempty [of sample_scrapers "[''slave_status'', ''unknown'']"]
  by (simp add: sample_scrapers_def filterScrapers_def filters_get_def)

section \<open>Properties of the deadline derivation and of the handler\<close>

lemma f64_zero_cases:
  "f64_eq t (Finite 0) \<Longrightarrow> \<not> f64_lt t (Finite 0) \<and> \<not> f64_lt (Finite 0) t"
  "f64_lt t (Finite 0) \<Longrightarrow> \<not> f64_lt (Finite 0) t"
  "\<not> f64_eq t (Finite 0) \<Longrightarrow> \<not> f64_lt t (Finite 0) \<Longrightarrow> f64_ge off t \<Longrightarrow> f64_lt (Finite 0) t"
  by (cases t; cases off; simp add: f64_ge_def)+

text \<open>
  C2. With the header absent or empty, or its value equal to zero, the result is zero and no
  error; a negative value is an \<open>InvalidTimeout\<close> error; a positive value that the offset
  reaches is a \<open>TimeoutTooTight\<close> error; in every other case the result is the value minus
  the offset, in \<open>float64\<close> arithmetic, and no error.
\<close>

theorem getScrapeTimeoutSeconds_cases:
  "(Header_Get r = [] \<longrightarrow> getScrapeTimeoutSeconds E r off = (Finite 0, None))
   \<and> (Header_Get r \<noteq> [] \<and> ParseFloat E (Header_Get r) = Some t \<longrightarrow>
        (f64_eq t (Finite 0) \<longrightarrow> getScrapeTimeoutSeconds E r off = (Finite 0, None))
      \<and> (f64_lt t (Finite 0) \<longrightarrow>
            getScrapeTimeoutSeconds E r off = (Finite 0, Some (InvalidTimeout t)))
      \<and> (f64_lt (Finite 0) t \<and> f64_ge off t \<longrightarrow>
            getScrapeTimeoutSeconds E r off = (Finite 0, Some (TimeoutTooTight off t)))
      \<and> (\<not> f64_eq t (Finite 0) \<and> \<not> f64_lt t (Finite 0) \<and> \<not> (f64_lt (Finite 0) t \<and> f64_ge off t) \<longrightarrow>
            getScrapeTimeoutSeconds E r off = (f64_sub (round64 E) t off, None)))"
  using f64_zero_cases [of t] f64_zero_cases(3) [of t off]
  by (auto simp: getScrapeTimeoutSeconds_def Let_def)

lemma sample_parse:
  "ParseFloat sample_env ''0'' = Some (Finite 0)"
  "ParseFloat sample_env ''10'' = Some (Finite 10)"
  "ParseFloat sample_env ''-5'' = Some (Finite (- 5))"
  "ParseFloat sample_env ''soon'' = None"
  by (simp_all add: sample_env_def decimal_float_def is_digit_def decimal_value_def)

theorem getScrapeTimeoutSeconds_cases_witness:
  "getScrapeTimeoutSeconds sample_env (sample_request None) (Finite (1 / 4)) = (Finite 0, None)
   \<and> getScrapeTimeoutSeconds sample_env (sample_request (Some ''0'')) (Finite (1 / 4)) = (Finite 0, None)
   \<and> getScrapeTimeoutSeconds sample_env (sample_request (Some ''-5'')) (Finite (1 / 4))
       = (Finite 0, Some (InvalidTimeout (Finite (- 5))))
   \<and> getScrapeTimeoutSeconds sample_env (sample_request (Some ''10'')) (Finite 20)
       = (Finite 0, Some (TimeoutTooTight (Finite 20) (Finite 10)))
   \<and> getScrapeTimeoutSeconds sample_env (sample_request (Some ''10'')) (Finite (1 / 4))
       = (Finite (39 / 4), None)"
  using getScrapeTimeoutSeconds_cases [of "sample_request None" sample_env "Finite (1 / 4)" NaN]
        getScrapeTimeoutSeconds_cases [of "sample_request (Some ''0'')" sample_env "Finite (1 / 4)" "Finite 0"]
        getScrapeTimeoutSeconds_cases [of "sample_request (Some ''-5'')" sample_env "Finite (1 / 4)" "Finite (- 5)"]
        getScrapeTimeoutSeconds_cases [of "sample_request (Some ''10'')" sample_env "Finite 20" "Finite 10"]
        getScrapeTimeoutSeconds_cases [of "sample_request (Some ''10'')" sample_env "Finite (1 / 4)" "Finite 10"]
  by (simp add: sample_parse Header_Get_def sample_request_def f64_ge_def)
     (simp add: sample_env_def)


lemma invalid_timeout_result:
  assumes "invalid_timeout_header E off r"
  shows "fst (getScrapeTimeoutSeconds E r off) = Finite 0"
    and "snd (getScrapeTimeoutSeconds E r off) \<noteq> None"
  using assms f64_zero_cases [of "the (ParseFloat E (Header_Get r))"]
  by (auto simp: invalid_timeout_header_def getScrapeTimeoutSeconds_def Let_def
           split: option.splits)

text \<open>
  C8. A request whose timeout header is invalid is served all the same: the error is the last
  line logged, the collector gets the request's own context, with no timeout derived, and
  the response is the one that the library's handler writes for the selected probes, the
  same as for the request without the header.
\<close>

theorem newHandler_fail_open:
  assumes "invalid_timeout_header E off r"
  shows "snd (getScrapeTimeoutSeconds E r off) \<noteq> None
       \<and> last (logged (newHandler E c off serve scrapers r))
           = LogError ''Error getting timeout from Prometheus header''
               (snd (getScrapeTimeoutSeconds E r off))
       \<and> collector_ctx (newHandler E c off serve scrapers r) = RequestContext
       \<and> collector_scrapers (newHandler E c off serve scrapers r)
           = filterScrapers scrapers (query_collect r)
       \<and> response (newHandler E c off serve scrapers r)
           = serve RequestContext (collector_dsn (newHandler E c off serve scrapers r))
               (filterScrapers scrapers (query_collect r))
       \<and> response (newHandler E c off serve scrapers r)
           = response (newHandler E c off serve scrapers (r\<lparr>header_timeout := None\<rparr>))"
proof -
  obtain e where e: "getScrapeTimeoutSeconds E r off = (Finite 0, Some e)"
    using invalid_timeout_result [OF assms] by (cases "getScrapeTimeoutSeconds E r off") auto
  have n: "getScrapeTimeoutSeconds E (r\<lparr>header_timeout := None\<rparr>) off = (Finite 0, None)"
    by (simp add: getScrapeTimeoutSeconds_def Header_Get_def)
  show ?thesis
    by (simp add: newHandler_def e n f64_gt_def Let_def split: prod.splits option.splits)
qed

theorem newHandler_fail_open_witness:
  "invalid_timeout_header sample_env (Finite (1 / 4)) (sample_request (Some ''-5''))
   \<and> invalid_timeout_header sample_env (Finite (1 / 4)) (sample_request (Some ''soon''))
   \<and> invalid_timeout_header sample_env (Finite 20) (sample_request (Some ''10''))
   \<and> newHandler sample_env sample_config (Finite 20) (\<lambda>ctx dsn scrapers. (ctx, map Name scrapers))
        sample_scrapers (sample_request (Some ''10''))
      = \<lparr>logged = [LogError ''Error getting timeout from Prometheus header''
                      (Some (TimeoutTooTight (Finite 20) (Finite 10)))],
         collector_ctx = RequestContext,
         collector_dsn = ''dsn:'',
         collector_scrapers = [sample_scrapers ! 1],
         response = (RequestContext, [''slave_status''])\<rparr>"
proof -
  have h: "invalid_timeout_header sample_env (Finite 20) (sample_request (Some ''10''))"
    by (simp add: invalid_timeout_header_def Header_Get_def sample_request_def sample_parse f64_ge_def)
  have h2: "invalid_timeout_header sample_env (Finite (1 / 4)) (sample_request (Some ''-5''))"
    by (simp add: invalid_timeout_header_def Header_Get_def sample_request_def sample_parse f64_ge_def)
  have h3: "invalid_timeout_header sample_env (Finite (1 / 4)) (sample_request (Some ''soon''))"
    by (simp add: invalid_timeout_header_def Header_Get_def sample_request_def sample_parse f64_ge_def)
  have g: "getScrapeTimeoutSeconds sample_env (sample_request (Some ''10'')) (Finite 20)
             = (Finite 0, Some (TimeoutTooTight (Finite 20) (Finite 10)))"
    by (simp add: getScrapeTimeoutSeconds_def Header_Get_def sample_request_def sample_parse f64_ge_def)
  have f: "filterScrapers sample_scrapers [''slave_status''] = [sample_scrapers ! 1]"
    by (simp add: sample_scrapers_def filterScrapers_def filters_get_def)
  have q: "query_collect (sample_request (Some ''10'')) = [''slave_status'']"
           "query_target (sample_request (Some ''10'')) = None"
    by (simp_all add: sample_request_def)
  have ev: "newHandler sample_env sample_config (Finite 20) (\<lambda>ctx dsn scrapers. (ctx, map Name scrapers))
        sample_scrapers (sample_request (Some ''10''))
      = \<lparr>logged = [LogError ''Error getting timeout from Prometheus header''
                      (Some (TimeoutTooTight (Finite 20) (Finite 10)))],
         collector_ctx = RequestContext,
         collector_dsn = ''dsn:'',
         collector_scrapers = [sample_scrapers ! 1],
         response = (RequestContext, [''slave_status''])\<rparr>"
    by (simp add: newHandler_def g f q f64_gt_def sample_config_def Let_def)
       (simp add: sample_scrapers_def)
  show ?thesis
    using h h2 h3 ev
      newHandler_fail_open [OF h, of sample_config "\<lambda>ctx dsn scrapers. (ctx, map Name scrapers)" sample_scrapers]
    by simp
qed

section \<open>Properties of the replication status probe\<close>

subsection \<open>Dialect resolution\<close>

text \<open>
  C1. On a connection that rejects \<open>SHOW ALL SLAVES STATUS\<close> and accepts it with the suffix
  \<open>NONBLOCKING\<close> (and nothing else), the search does not stop at the query that succeeded:
  the two other variants and their suffixes are attempted after it, ten queries in all, and
  the probe fails with the error of the last one.
\<close>

theorem Scrape_goes_on_after_suffix_success:
  "Scrape sample_env (fake_QueryContext (\<lambda>q. q = ''SHOW ALL SLAVES STATUS NONBLOCKING'')) []
   = (([], Some (DriverError ''SHOW REPLICA STATUS'')),
      [''SHOW ALL SLAVES STATUS'',
       ''SHOW ALL SLAVES STATUS NONBLOCKING'',
       ''SHOW SLAVE STATUS'',
       ''SHOW SLAVE STATUS NONBLOCKING'',
       ''SHOW SLAVE STATUS NOLOCK'',
       ''SHOW SLAVE STATUS'',
       ''SHOW REPLICA STATUS'',
       ''SHOW REPLICA STATUS NONBLOCKING'',
       ''SHOW REPLICA STATUS NOLOCK'',
       ''SHOW REPLICA STATUS''])"
  by (simp add: Scrape_def slaveStatusQueries_def slaveStatusQuerySuffixes_def
        fake_QueryContext_def assigned_def)

subsection \<open>Compound identifiers\<close>






lemma parseMariaDBGtid_loop_append:
  "parseMariaDBGtid_loop E name mh mu cn con es ch
     = ch @ concat (map (\<lambda>e. parseMariaDBGtid_loop E name mh mu cn con [e] []) es)"
  by (induction es arbitrary: ch) (auto simp: Let_def split: option.splits)












subsection \<open>The metrics of a row\<close>

lemma columnIndex_from_map_of:
  "length vals = length cols \<Longrightarrow>
   (if columnIndex_from (length pre) cols n = - 1 then map_of (zip cols vals) n = None
    else 0 \<le> columnIndex_from (length pre) cols n
       \<and> map_of (zip cols vals) n = Some ((pre @ vals) ! nat (columnIndex_from (length pre) cols n)))"
proof (induction cols arbitrary: vals pre)
  case Nil
  then show ?case by simp
next
  case (Cons c cs)
  then obtain v vs where vals: "vals = v # vs" and len: "length vs = length cs"
    by (cases vals) auto
  show ?case
  proof (cases "c = n")
    case True
    then show ?thesis by (simp add: vals)
  next
    case False
    from Cons.IH [OF len, of "pre @ [v]"] False show ?thesis
      by (auto simp: vals split: if_splits)
  qed
qed

lemma columnValue_column_of:
  assumes "length scanArgs = length slaveCols"
  shows "columnValue scanArgs slaveCols n
           = (case column_of slaveCols scanArgs n of None \<Rightarrow> [] | Some v \<Rightarrow> v)"
  using columnIndex_from_map_of [OF assms, of "[]" n]
  by (auto simp: columnValue_def columnIndex_def column_of_def Let_def split: if_splits)

lemma generic_loop_eq:
  "i + length cols \<le> length scanArgs \<Longrightarrow>
   generic_loop E mh mu cn con scanArgs i cols ch
     = ch @ concat (map (column_metrics E (mh, mu, cn, con)) (zip cols (drop i scanArgs)))"
proof (induction cols arbitrary: i ch)
  case Nil
  then show ?case by simp
next
  case (Cons col rest)
  then have d: "drop i scanArgs = scanArgs ! i # drop (Suc i) scanArgs"
    by (simp add: Cons_nth_drop_Suc)
  from Cons.prems have "Suc i + length rest \<le> length scanArgs" by simp
  note IH = Cons.IH [OF this]
  show ?case
    by (simp add: d IH column_metrics_def generic_metric_def slaveStatus_def
          split: option.splits)
qed

lemma parseMariaDBGtid_append:
  "parseMariaDBGtid E ch name v mh mu cn con = ch @ parseMariaDBGtid E [] name v mh mu cn con"
  using parseMariaDBGtid_loop_append [of E name mh mu cn con "Split v CHR '',''" ch]
        parseMariaDBGtid_loop_append [of E name mh mu cn con "Split v CHR '',''" "[]"]
  by (simp add: parseMariaDBGtid_def del: parseMariaDBGtid_loop.simps)

lemma scrape_row_eq:
  assumes "length scanArgs = length slaveCols"
  shows "scrape_row E slaveCols scanArgs ch =
     (case row_labels scanArgs slaveCols of
        (mh, mu, cn, con) \<Rightarrow>
          ch @ concat (map (column_metrics E (mh, mu, cn, con)) (zip slaveCols scanArgs))
             @ parseMariaDBGtid E [] ''Gtid_IO_Pos''
                 (columnValue scanArgs slaveCols ''Gtid_IO_Pos'') mh mu cn con
             @ parseMariaDBGtid E [] ''Gtid_Slave_Pos''
                 (columnValue scanArgs slaveCols ''Gtid_Slave_Pos'') mh mu cn con)"
proof -
  obtain mh mu cn con where l: "row_labels scanArgs slaveCols = (mh, mu, cn, con)"
    by (cases "row_labels scanArgs slaveCols") auto
  have g: "generic_loop E mh mu cn con scanArgs 0 slaveCols ch
     = ch @ concat (map (column_metrics E (mh, mu, cn, con)) (zip slaveCols scanArgs))"
    using generic_loop_eq [of 0 slaveCols scanArgs E mh mu cn con ch] assms by simp
  show ?thesis
    unfolding scrape_row_def l
    apply (simp only: prod.case Let_def g)
    apply (subst parseMariaDBGtid_append)
    apply (subst (2) parseMariaDBGtid_append)
    apply simp
    done
qed

lemma parseMariaDBGtid_loop_props:
  "m \<in> set (parseMariaDBGtid_loop E name mh mu cn con es ch) \<Longrightarrow>
   m \<in> set ch \<or>
   (desc_help (metric_desc m) = name @ '' metric from SHOW SLAVE STATUS.''
    \<and> take 4 (labelValues m) = [mh, mu, cn, con]
    \<and> take 4 (variableLabels (metric_desc m))
         = [''master_host'', ''master_uuid'', ''channel_name'', ''connection_name''])"
proof (induction es arbitrary: ch)
  case Nil
  then show ?case by simp
next
  case (Cons e es)
  show ?case
  proof (cases "length (Split e CHR ''-'') \<noteq> 3")
    case True
    with Cons show ?thesis by simp
  next
    case False
    show ?thesis
    proof (cases "ParseUint (Split e CHR ''-'' ! 2)")
      case None
      with False Cons show ?thesis by (simp add: Let_def)
    next
      case (Some n)
      with False Cons.prems have
        "m \<in> set (parseMariaDBGtid_loop E name mh mu cn con es
           (ch @ [\<lparr>metric_desc =
                     \<lparr>fqName = BuildFQName (namespace E) slaveStatus (ToLower E name),
                      desc_help = name @ '' metric from SHOW SLAVE STATUS.'',
                      variableLabels = [''master_host'', ''master_uuid'', ''channel_name'',
                        ''connection_name'', ''domain_id'', ''server_id'']\<rparr>,
                   valueType = GaugeValue,
                   metric_value = float64_of_uint64 E n,
                   labelValues = [mh, mu, cn, con, Split e CHR ''-'' ! 0, Split e CHR ''-'' ! 1]\<rparr>]))"
        by (simp add: Let_def)
      from Cons.IH [OF this] show ?thesis by auto
    qed
  qed
qed

lemma parseMariaDBGtid_props:
  "m \<in> set (parseMariaDBGtid E [] name v mh mu cn con) \<Longrightarrow>
   desc_help (metric_desc m) = name @ '' metric from SHOW SLAVE STATUS.''
    \<and> take 4 (labelValues m) = [mh, mu, cn, con]
    \<and> take 4 (variableLabels (metric_desc m))
         = [''master_host'', ''master_uuid'', ''channel_name'', ''connection_name'']"
  using parseMariaDBGtid_loop_props [of m E name mh mu cn con "Split v CHR '',''" "[]"]
  by (auto simp: parseMariaDBGtid_def split: if_splits)

lemma column_metrics_props:
  "m \<in> set (column_metrics E (mh, mu, cn, con) column) \<Longrightarrow>
   is_generic m \<and> labelValues m = [mh, mu, cn, con]
   \<and> variableLabels (metric_desc m)
        = [''master_host'', ''master_uuid'', ''channel_name'', ''connection_name'']"
  by (auto simp: column_metrics_def generic_metric_def is_generic_def split: option.splits)







lemma row_labels_preferred:
  assumes "length scanArgs = length slaveCols"
  shows "row_labels scanArgs slaveCols =
     (preferred_column slaveCols scanArgs ''Master_Host'' ''Source_Host'',
      preferred_column slaveCols scanArgs ''Master_UUID'' ''Source_UUID'',
      columnValue scanArgs slaveCols ''Channel_Name'',
      columnValue scanArgs slaveCols ''Connection_name'')"
  by (simp add: row_labels_def Let_def preferred_column_def columnValue_column_of [OF assms]
        split: option.splits)

text \<open>
  C10. The label \<open>master_host\<close> of a row is the value of the column \<open>Master_Host\<close> when
  it is present and not empty, otherwise that of \<open>Source_Host\<close>, otherwise the empty string;
  \<open>master_uuid\<close> likewise from \<open>Master_UUID\<close> and \<open>Source_UUID\<close>. Every metric of the
  row carries the two as its first two label values.
\<close>

theorem master_labels_preferred:
  assumes "length scanArgs = length slaveCols"
  shows "fst (row_labels scanArgs slaveCols)
           = preferred_column slaveCols scanArgs ''Master_Host'' ''Source_Host''
       \<and> fst (snd (row_labels scanArgs slaveCols))
           = preferred_column slaveCols scanArgs ''Master_UUID'' ''Source_UUID''
       \<and> (\<forall>m \<in> set (scrape_row E slaveCols scanArgs []).
            take 2 (variableLabels (metric_desc m)) = [''master_host'', ''master_uuid'']
          \<and> take 2 (labelValues m)
              = [preferred_column slaveCols scanArgs ''Master_Host'' ''Source_Host'',
                 preferred_column slaveCols scanArgs ''Master_UUID'' ''Source_UUID''])"
proof -
  note l = row_labels_preferred [OF assms]
  have t: "take 4 xs = [a, b, c, d] \<Longrightarrow> take 2 xs = [a, b]" for xs :: "string list" and a b c d
    by (cases xs; simp; cases "tl xs"; simp)
  have "take 2 (variableLabels (metric_desc m)) = [''master_host'', ''master_uuid'']
          \<and> take 2 (labelValues m)
              = [preferred_column slaveCols scanArgs ''Master_Host'' ''Source_Host'',
                 preferred_column slaveCols scanArgs ''Master_UUID'' ''Source_UUID'']"
    if "m \<in> set (scrape_row E slaveCols scanArgs [])" for m
    using that
    by (auto simp: scrape_row_eq [OF assms] l
             dest!: column_metrics_props parseMariaDBGtid_props dest: t)
  then show ?thesis by (simp add: l)
qed


lemma sample_row_labels:
  "row_labels [''db1'', ''7'', ''Waiting''] [''Source_Host'', ''Seconds_Behind_Master'', ''Slave_IO_State'']
     = (''db1'', [], [], [])"
  by (simp add: row_labels_def columnValue_def columnIndex_def)

lemma sample_parseStatus:
  "parseStatus sample_env ''db1'' = None"
  "parseStatus sample_env ''7'' = Some (Finite 7)"
  "parseStatus sample_env ''Waiting'' = None"
  by (simp_all add: sample_env_def decimal_float_def is_digit_def decimal_value_def)


theorem master_labels_preferred_witness:
  "length [''db1'', ''7'', ''Waiting'']
     = length [''Source_Host'', ''Seconds_Behind_Master'', ''Slave_IO_State'']
   \<and> preferred_column [''Source_Host'', ''Seconds_Behind_Master'', ''Slave_IO_State'']
        [''db1'', ''7'', ''Waiting''] ''Master_Host'' ''Source_Host'' = ''db1''
   \<and> preferred_column [''Master_Host'', ''Source_Host''] [''a'', ''b''] ''Master_Host'' ''Source_Host''
        = ''a''
   \<and> preferred_column [''Master_Host'', ''Source_Host''] [[], ''b''] ''Master_Host'' ''Source_Host''
        = ''b''
   \<and> fst (row_labels [''db1'', ''7'', ''Waiting'']
             [''Source_Host'', ''Seconds_Behind_Master'', ''Slave_IO_State'']) = ''db1''
   \<and> fst (row_labels [''a'', ''b''] [''Master_Host'', ''Source_Host'']) = ''a''
   \<and> fst (row_labels [[], ''b''] [''Master_Host'', ''Source_Host'']) = ''b''
   \<and> map labelValues
        (scrape_row sample_env [''Source_Host'', ''Seconds_Behind_Master'', ''Slave_IO_State'']
           [''db1'', ''7'', ''Waiting''] [])
      = [[''db1'', [], [], []]]"
proof -
  have p: "preferred_column [''Source_Host'', ''Seconds_Behind_Master'', ''Slave_IO_State'']
        [''db1'', ''7'', ''Waiting''] ''Master_Host'' ''Source_Host'' = ''db1''"
     "preferred_column [''Master_Host'', ''Source_Host''] [''a'', ''b''] ''Master_Host'' ''Source_Host''
        = ''a''"
     "preferred_column [''Master_Host'', ''Source_Host''] [[], ''b''] ''Master_Host'' ''Source_Host''
        = ''b''"
    by (simp_all add: preferred_column_def column_of_def)
  have r: "scrape_row sample_env [''Source_Host'', ''Seconds_Behind_Master'', ''Slave_IO_State'']
           [''db1'', ''7'', ''Waiting''] []
         = [generic_metric sample_env (''db1'', [], [], []) ''Seconds_Behind_Master'' (Finite 7)]"
    by (simp add: scrape_row_def sample_row_labels sample_parseStatus parseMariaDBGtid_def
          columnValue_def columnIndex_def generic_metric_def slaveStatus_def)
  show ?thesis
    using p r
      master_labels_preferred [where E = sample_env and scanArgs = "[''db1'', ''7'', ''Waiting'']"
        and slaveCols = "[''Source_Host'', ''Seconds_Behind_Master'', ''Slave_IO_State'']"]
      master_labels_preferred [where E = sample_env and scanArgs = "[''a'', ''b'']"
        and slaveCols = "[''Master_Host'', ''Source_Host'']"]
      master_labels_preferred [where E = sample_env and scanArgs = "[[], ''b'']"
        and slaveCols = "[''Master_Host'', ''Source_Host'']"]
    by (simp add: generic_metric_def)
qed

subsection \<open>Order of the columns\<close>









end
